theory Spec2Isabelle
  imports Complex_Main
begin

section \<open>Numbers and number formatting\<close>

text \<open>
  The two React components (\<^verbatim>\<open>FerrisWheel\<close>, \<^verbatim>\<open>FunctionPlotter\<close>) compute with
  JavaScript numbers. The embedding reads a number as a real: arithmetic is exact, and
  there is neither rounding, nor an infinity, nor a negative zero. \<^verbatim>\<open>Math.PI\<close>,
  \<^verbatim>\<open>Math.sin\<close>, \<^verbatim>\<open>Math.cos\<close> and \<^verbatim>\<open>Math.abs\<close> are \<open>pi\<close>, \<open>sin\<close>, \<open>cos\<close> and
  \<open>abs\<close>. The one place where the code looks at a value that is not a number is the
  result of \<^verbatim>\<open>parseFloat\<close> on the text of an input field, so that result has a type of
  its own, with \<^verbatim>\<open>NaN\<close> as a constructor.
\<close>

datatype number = NaN | Num real

text \<open>\<^verbatim>\<open>v || 0\<close>: the falsy numbers are \<^verbatim>\<open>NaN\<close> and zero, and both give \<open>0\<close>.\<close>

definition or_zero :: "number \<Rightarrow> real" where
  "or_zero val = (case val of NaN \<Rightarrow> 0 | Num v \<Rightarrow> if v = 0 then 0 else v)"

text \<open>\<^verbatim>\<open>Math.round\<close> rounds to the nearest integer, a half towards plus infinity.\<close>

definition Math_round :: "real \<Rightarrow> int" where
  "Math_round v = \<lfloor>v + 1 / 2\<rfloor>"

text \<open>
  \<^verbatim>\<open>a % b\<close> on numbers is the remainder of the division truncated towards zero: its sign
  is the sign of \<open>a\<close>. The source only divides by the constant \<^verbatim>\<open>2 * Math.PI\<close>.
\<close>

definition trunc :: "real \<Rightarrow> int" where
  "trunc q = (if 0 \<le> q then \<lfloor>q\<rfloor> else \<lceil>q\<rceil>)"

definition js_rem :: "real \<Rightarrow> real \<Rightarrow> real" where
  "js_rem a b = a - b * of_int (trunc (a / b))"

text \<open>
  \<^verbatim>\<open>Math.atan2(y, x)\<close>: the angle in \<open>(-pi, pi]\<close> of the point \<open>(x, y)\<close>, and \<open>0\<close> at the
  origin.
\<close>

definition atan2 :: "real \<Rightarrow> real \<Rightarrow> real" where
  "atan2 v u =
     (if 0 < u then arctan (v / u)
      else if u < 0 then (if 0 \<le> v then arctan (v / u) + pi else arctan (v / u) - pi)
      else if 0 < v then pi / 2
      else if v < 0 then - (pi / 2)
      else 0)"

text \<open>
  \<^verbatim>\<open>x.toFixed(f)\<close>, after ECMAScript's \<^verbatim>\<open>Number.prototype.toFixed\<close>: the sign is split
  off; the digits are those of the integer \<open>n\<close> nearest to \<open>\<bar>x\<bar> * 10 ^ f\<close> (the larger one
  at a tie), padded with zeros to \<open>f + 1\<close> digits, with a point before the last \<open>f\<close>. From
  \<open>10 ^ 21\<close> on the method hands over to the number's own \<^verbatim>\<open>toString\<close>, which writes an
  exponent; that function is a parameter \<open>ts\<close> of the embedding.
\<close>

definition digit_char :: "nat \<Rightarrow> char" where
  "digit_char d = ''0123456789'' ! d"

fun digits10 :: "nat \<Rightarrow> string" where
  "digits10 n = (if n < 10 then [digit_char n] else digits10 (n div 10) @ [digit_char (n mod 10)])"

declare digits10.simps [simp del]

definition toFixed_int :: "nat \<Rightarrow> real \<Rightarrow> nat" where
  "toFixed_int f x = nat \<lfloor>\<bar>x\<bar> * 10 ^ f + 1 / 2\<rfloor>"

definition fixed_notation :: "nat \<Rightarrow> nat \<Rightarrow> string" where
  "fixed_notation f n =
     (let m = digits10 n in
      if f = 0 then m
      else
        let m' = (if length m \<le> f then replicate (f + 1 - length m) CHR ''0'' @ m else m);
            k = length m'
        in take (k - f) m' @ ''.'' @ drop (k - f) m')"

definition toFixed :: "(real \<Rightarrow> string) \<Rightarrow> nat \<Rightarrow> real \<Rightarrow> string" where
  "toFixed ts f x =
     (if x < 0 then ''-'' else []) @
     (if 10 ^ 21 \<le> \<bar>x\<bar> then ts \<bar>x\<bar> else fixed_notation f (toFixed_int f x))"

text \<open>
  \<^verbatim>\<open>parseFloat(x.toFixed(f))\<close> as a number: reading the digits back gives \<open>n / 10 ^ f\<close>
  with the sign of \<open>x\<close>. From \<open>10 ^ 21\<close> on the text is the one of \<^verbatim>\<open>toString\<close>, which
  \<^verbatim>\<open>parseFloat\<close> reads back as the number itself.
\<close>

definition parseFloat_toFixed :: "nat \<Rightarrow> real \<Rightarrow> real" where
  "parseFloat_toFixed f x =
     (if 10 ^ 21 \<le> \<bar>x\<bar> then x
      else if x < 0 then - (real (toFixed_int f x) / 10 ^ f)
      else real (toFixed_int f x) / 10 ^ f)"

text \<open>The two symbols of the labels that are not ASCII, as their UTF-8 bytes.\<close>

definition pi_sym :: string where
  "pi_sym = [CHR 0xCF, CHR 0x80]"

definition infinity_sym :: string where
  "infinity_sym = [CHR 0xE2, CHR 0x88, CHR 0x9E]"

section \<open>The ferris wheel\<close>

text \<open>
  The state of \<^verbatim>\<open>FerrisWheel\<close> is the angle, in radians. Every handler is a function from
  the old angle to the new one.
\<close>

definition CENTER_x :: real where
  "CENTER_x = 250"

definition CENTER_y :: real where
  "CENTER_y = 250"

text \<open>The two fields of the bounding rectangle of the SVG element that the code reads.\<close>

record DOMRect =
  rect_left :: real
  rect_top :: real

text \<open>
  \<^verbatim>\<open>updateAngle\<close>: \<open>None\<close> stands for \<^verbatim>\<open>svgRef.current\<close> being null, where the handler
  returns without setting the angle.
\<close>

definition updateAngle :: "DOMRect option \<Rightarrow> real \<Rightarrow> real \<Rightarrow> real \<Rightarrow> real" where
  "updateAngle current clientX clientY angle =
     (case current of
        None \<Rightarrow> angle
      | Some rect \<Rightarrow>
          let u = clientX - rect_left rect - CENTER_x;
              v = rect_top rect + CENTER_y - clientY;
              newAngle = atan2 v u
          in if newAngle < 0 then newAngle + 2 * pi else newAngle)"

definition displayDegrees :: "real \<Rightarrow> real" where
  "displayDegrees angle = of_int (Math_round ((angle * 180 / pi) * 10)) / 10"

definition radText :: "(real \<Rightarrow> string) \<Rightarrow> real \<Rightarrow> string" where
  "radText ts angle = toFixed ts 2 (angle / pi) @ pi_sym"

text \<open>
  \<^verbatim>\<open>handleDegreeChange\<close>, on \<open>val\<close>, the text of the field after \<^verbatim>\<open>parseFloat\<close>: the
  guard \<^verbatim>\<open>!isNaN(val)\<close> is the case distinction.
\<close>

definition handleDegreeChange :: "number \<Rightarrow> real \<Rightarrow> real" where
  "handleDegreeChange val angle = (case val of NaN \<Rightarrow> angle | Num v \<Rightarrow> (v * pi) / 180)"

definition positiveAngle :: "real \<Rightarrow> real" where
  "positiveAngle angle =
     (let normalized = js_rem angle (2 * pi)
      in if normalized < 0 then normalized + 2 * pi else normalized)"

definition getQuadrantColor :: "real \<Rightarrow> string" where
  "getQuadrantColor angle =
     (if positiveAngle angle < pi / 2 then ''text-emerald-600''
      else if positiveAngle angle < pi then ''text-blue-600''
      else if positiveAngle angle < 3 * pi / 2 then ''text-orange-600''
      else ''text-rose-600'')"

text \<open>The text of the tangent row of the card.\<close>

definition tanText :: "(real \<Rightarrow> string) \<Rightarrow> real \<Rightarrow> string" where
  "tanText ts angle =
     (let rawCos = cos angle; rawSin = sin angle
      in if \<bar>rawCos\<bar> < 0.001 then infinity_sym else toFixed ts 4 (rawSin / rawCos))"

section \<open>The function plotter\<close>

record PlotParams =
  A :: real
  omega :: real
  phi :: real
  k :: real

definition defaultParams :: PlotParams where
  "defaultParams = \<lparr>A = 1, omega = 1, phi = 0, k = 0\<rparr>"

text \<open>
  The \<^verbatim>\<open>onChange\<close> handlers of the four number fields, on the parsed text. (Each
  parameter also has a range slider, whose handler stores \<^verbatim>\<open>parseFloat\<close> of its value as
  it is; a slider has no text to type into.)
\<close>

definition onChange_A :: "number \<Rightarrow> PlotParams \<Rightarrow> PlotParams" where
  "onChange_A val params = params\<lparr>A := or_zero val\<rparr>"

definition onChange_omega :: "number \<Rightarrow> PlotParams \<Rightarrow> PlotParams" where
  "onChange_omega val params = params\<lparr>omega := or_zero val\<rparr>"

definition onChange_phi :: "number \<Rightarrow> PlotParams \<Rightarrow> PlotParams" where
  "onChange_phi val params = params\<lparr>phi := or_zero val\<rparr>"

definition onChange_k :: "number \<Rightarrow> PlotParams \<Rightarrow> PlotParams" where
  "onChange_k val params = params\<lparr>k := or_zero val\<rparr>"

text \<open>One element of \<^verbatim>\<open>points\<close>.\<close>

record DataPoint =
  xVal :: real
  y :: real
  standard :: real

definition start :: real where
  "start = - 2 * pi"

definition end_val :: real where
  "end_val = 2 * pi"

definition step :: real where
  "step = (end_val - start) / 200"

definition point_at :: "PlotParams \<Rightarrow> real \<Rightarrow> DataPoint" where
  "point_at params x =
     \<lparr>xVal = x,
      y = parseFloat_toFixed 3 (A params * sin (omega params * x + phi params * pi) + k params),
      standard = parseFloat_toFixed 3 (sin x)\<rparr>"

text \<open>
  The \<^verbatim>\<open>for\<close> loop of \<^verbatim>\<open>data\<close>, with the loop variable \<open>x\<close> and the array built so far.
\<close>

function sample_loop :: "PlotParams \<Rightarrow> real \<Rightarrow> DataPoint list \<Rightarrow> DataPoint list" where
  "sample_loop params x points =
     (if x \<le> end_val then sample_loop params (x + step) (points @ [point_at params x])
      else points)"
  by pat_completeness auto

text \<open>
  The loop ends: \<open>step\<close> is positive, so the number of steps that still fit below
  \<open>end_val\<close> goes down with every turn.
\<close>

termination sample_loop
proof (relation "measure (\<lambda>(params, x, points). nat (\<lfloor>(end_val - x) / step\<rfloor> + 1))")
  show "wf (measure (\<lambda>(params, x, points). nat (\<lfloor>(end_val - x) / step\<rfloor> + 1)))"
    by simp
next
  fix params :: PlotParams and x :: real and points :: "DataPoint list"
  assume le: "x \<le> end_val"
  have pos: "0 < step"
    by (simp add: step_def end_val_def start_def)
  have "(end_val - (x + step)) / step = (end_val - x) / step - 1"
    using pos by (simp add: field_simps)
  then have "\<lfloor>(end_val - (x + step)) / step\<rfloor> = \<lfloor>(end_val - x) / step\<rfloor> - 1"
    by simp
  moreover have "0 \<le> \<lfloor>(end_val - x) / step\<rfloor>"
    using le pos by simp
  ultimately show "((params, x + step, points @ [point_at params x]), (params, x, points))
      \<in> measure (\<lambda>(params, x, points). nat (\<lfloor>(end_val - x) / step\<rfloor> + 1))"
    by simp
qed

declare sample_loop.simps [simp del]

definition data :: "PlotParams \<Rightarrow> DataPoint list" where
  "data params = sample_loop params start []"

text \<open>The number of turns the loop still makes when its variable is \<open>x\<close>.\<close>

definition turns :: "real \<Rightarrow> nat" where
  "turns x = (if x \<le> end_val then nat \<lfloor>(end_val - x) / step\<rfloor> + 1 else 0)"

definition formatXAxis :: "(real \<Rightarrow> string) \<Rightarrow> real \<Rightarrow> string" where
  "formatXAxis ts tick =
     (let piVal = tick / pi in
      if \<bar>piVal\<bar> < 0.01 then ''0''
      else if \<bar>piVal - 1\<bar> < 0.01 then pi_sym
      else if \<bar>piVal + 1\<bar> < 0.01 then ''-'' @ pi_sym
      else if \<bar>piVal - 2\<bar> < 0.01 then ''2'' @ pi_sym
      else if \<bar>piVal + 2\<bar> < 0.01 then ''-2'' @ pi_sym
      else if \<bar>piVal - 0.5\<bar> < 0.01 then pi_sym @ ''/2''
      else if \<bar>piVal + 0.5\<bar> < 0.01 then ''-'' @ pi_sym @ ''/2''
      else toFixed ts 1 piVal @ pi_sym)"

definition handleReset :: "PlotParams \<Rightarrow> PlotParams" where
  "handleReset params = defaultParams"

text \<open>
  The tick label as the specification words it, to compare with \<^verbatim>\<open>formatXAxis\<close>: a fixed
  list of special cases, tried in order, each a target coefficient of \<open>pi\<close> with its
  label, taken when the coefficient \<open>x / pi\<close> is less than \<open>0.01\<close> away from the target; when
  none is taken, the coefficient with one decimal, followed by the sign of \<open>pi\<close>.
\<close>

definition special_cases :: "(real \<times> string) list" where
  "special_cases =
     [(0, ''0''), (1, pi_sym), (- 1, ''-'' @ pi_sym), (2, ''2'' @ pi_sym), (- 2, ''-2'' @ pi_sym),
      (0.5, pi_sym @ ''/2''), (- 0.5, ''-'' @ pi_sym @ ''/2'')]"

definition axisTickLabel_spec :: "(real \<Rightarrow> string) \<Rightarrow> real \<Rightarrow> string" where
  "axisTickLabel_spec ts x =
     (case find (\<lambda>(target, label). \<bar>x / pi - target\<bar> < 0.01) special_cases of
        Some (target, label) \<Rightarrow> label
      | None \<Rightarrow> toFixed ts 1 (x / pi) @ pi_sym)"

section \<open>The loop variable in double precision\<close>

text \<open>
  The number of points of the plot depends on the last comparison \<^verbatim>\<open>x <= end\<close>, after
  two hundred additions. To see that it does not depend on reading numbers as reals, the
  loop variable is also modelled as the browser computes it: a double is the real it
  denotes, and every operation rounds its exact result to the nearest double.
\<close>

text \<open>
  Rounding to the nearest integer, a tie to the even one: the rounding of the significand.
\<close>

definition rne :: "real \<Rightarrow> int" where
  "rne q =
     (if q - of_int \<lfloor>q\<rfloor> < 1 / 2 then \<lfloor>q\<rfloor>
      else if 1 / 2 < q - of_int \<lfloor>q\<rfloor> then \<lfloor>q\<rfloor> + 1
      else if even \<lfloor>q\<rfloor> then \<lfloor>q\<rfloor>
      else \<lfloor>q\<rfloor> + 1)"

text \<open>
  The binary exponent of a positive number, found by bisection between \<open>lo\<close> and \<open>hi\<close>:
  \<open>2 ^ e \<le> x < 2 ^ (e + 1)\<close>. Started at \<open>- 1022\<close> it gives \<open>- 1022\<close> for every subnormal
  number.
\<close>

fun expo :: "nat \<Rightarrow> int \<Rightarrow> int \<Rightarrow> real \<Rightarrow> int" where
  "expo 0 lo hi x = lo"
| "expo (Suc n) lo hi x =
     (if hi - lo \<le> 1 then lo
      else if 2 powi ((lo + hi) div 2) \<le> x then expo n ((lo + hi) div 2) hi x
      else expo n lo ((lo + hi) div 2) x)"

text \<open>
  The double nearest to a real: the significand has 53 bits, so the result is a multiple of
  \<open>2 ^ (e - 52)\<close>. Overflow to an infinity is not modelled; the numbers of the loop are
  below \<open>8\<close>.
\<close>

definition fl :: "real \<Rightarrow> real" where
  "fl x =
     (if x = 0 then 0
      else let e = expo 12 (- 1022) 1024 \<bar>x\<bar>
           in sgn x * of_int (rne (\<bar>x\<bar> / 2 powi (e - 52))) * 2 powi (e - 52))"

text \<open>The double \<^verbatim>\<open>Math.PI\<close>, and the three constants of the loop computed in doubles.\<close>

definition Math_PI_double :: real where
  "Math_PI_double = 884279719003555 / 281474976710656"

definition start_double :: real where
  "start_double = fl (- 2 * Math_PI_double)"

definition end_double :: real where
  "end_double = fl (2 * Math_PI_double)"

definition step_double :: real where
  "step_double = fl (fl (end_double - start_double) / 200)"

text \<open>
  The values of \<open>x\<close> that the loop visits, in order, when \<^verbatim>\<open>x += step\<close> rounds. The first
  argument bounds the number of turns: \<open>None\<close> says that the bound was reached.
\<close>

fun grid_double :: "nat \<Rightarrow> real \<Rightarrow> real list option" where
  "grid_double 0 x = None"
| "grid_double (Suc n) x =
     (if x \<le> end_double then map_option ((#) x) (grid_double n (fl (x + step_double)))
      else Some [])"

section \<open>Text that is not a number\<close>

text \<open>
  Claim C1, as amended. When the text of a field does not parse (\<^verbatim>\<open>parseFloat\<close> gives
  \<^verbatim>\<open>NaN\<close>), the degree field leaves the angle as it was. Each of the four number fields of
  the plotter sets its own parameter to \<open>0\<close> (the \<^verbatim>\<open>|| 0\<close> of its handler) and leaves the
  other three parameters as they were.
\<close>

theorem nan_entry_degree_kept_param_zeroed:
  "handleDegreeChange NaN angle = angle \<and>
   onChange_A NaN params = params\<lparr>A := 0\<rparr> \<and>
   onChange_omega NaN params = params\<lparr>omega := 0\<rparr> \<and>
   onChange_phi NaN params = params\<lparr>phi := 0\<rparr> \<and>
   onChange_k NaN params = params\<lparr>k := 0\<rparr>"
  by (simp add: handleDegreeChange_def onChange_A_def onChange_omega_def onChange_phi_def
      onChange_k_def or_zero_def)

text \<open>
  Claim C1 as stated fails: with the default parameters, text that does not parse in the
  field of \<open>A\<close> changes the parameters (\<open>A\<close> goes from \<open>1\<close> to \<open>0\<close>).
\<close>

theorem nan_entry_changes_params:
  "onChange_A NaN defaultParams \<noteq> defaultParams"
  by (simp add: onChange_A_def or_zero_def defaultParams_def)

section \<open>Quadrants\<close>

subsection \<open>The remainder\<close>

lemma js_rem_nonneg:
  assumes "0 < b" and "0 \<le> a"
  shows "0 \<le> js_rem a b \<and> js_rem a b < b"
proof -
  have q: "0 \<le> a / b"
    using assms by simp
  have eq: "js_rem a b = b * (a / b - of_int \<lfloor>a / b\<rfloor>)"
    using assms q by (simp add: js_rem_def trunc_def algebra_simps)
  have "0 \<le> a / b - of_int \<lfloor>a / b\<rfloor>" "a / b - of_int \<lfloor>a / b\<rfloor> < 1"
    by linarith+
  then have "0 \<le> b * (a / b - of_int \<lfloor>a / b\<rfloor>)"
      "b * (a / b - of_int \<lfloor>a / b\<rfloor>) < b * 1"
    using assms(1) by (simp_all only: mult_nonneg_nonneg less_imp_le mult_strict_left_mono)
  then show ?thesis
    using eq by simp
qed

lemma js_rem_neg:
  assumes "0 < b" and "a < 0"
  shows "- b < js_rem a b \<and> js_rem a b \<le> 0"
proof -
  have q: "a / b < 0"
    using assms by (simp add: divide_neg_pos)
  have eq: "js_rem a b = b * (a / b - of_int \<lceil>a / b\<rceil>)"
    using assms q by (simp add: js_rem_def trunc_def algebra_simps)
  have "- 1 < a / b - of_int \<lceil>a / b\<rceil>" "a / b - of_int \<lceil>a / b\<rceil> \<le> 0"
    by linarith+
  then have "b * (- 1) < b * (a / b - of_int \<lceil>a / b\<rceil>)"
      "b * (a / b - of_int \<lceil>a / b\<rceil>) \<le> 0"
    using assms(1) by (simp_all only: mult_strict_left_mono mult_nonneg_nonpos less_imp_le)
  then show ?thesis
    using eq by simp
qed

lemma js_rem_small:
  assumes "0 \<le> a" and "a < b"
  shows "js_rem a b = a"
proof -
  have "0 \<le> a / b" "a / b < 1"
    using assms by simp_all
  then have "\<lfloor>a / b\<rfloor> = 0"
    by linarith
  then show ?thesis
    using \<open>0 \<le> a / b\<close> by (simp add: js_rem_def trunc_def)
qed

subsection \<open>The normalised angle\<close>

lemma positiveAngle_range: "0 \<le> positiveAngle angle \<and> positiveAngle angle < 2 * pi"
proof (cases "0 \<le> angle")
  case True
  then show ?thesis
    using js_rem_nonneg [of "2 * pi" angle] by (simp add: positiveAngle_def Let_def)
next
  case False
  then show ?thesis
    using js_rem_neg [of "2 * pi" angle] by (auto simp add: positiveAngle_def Let_def)
qed

lemma positiveAngle_id: "0 \<le> angle \<Longrightarrow> angle < 2 * pi \<Longrightarrow> positiveAngle angle = angle"
  by (simp add: positiveAngle_def Let_def js_rem_small)

lemma positiveAngle_turns: "\<exists>n::int. positiveAngle angle = angle + 2 * pi * of_int n"
proof (cases "js_rem angle (2 * pi) < 0")
  case True
  have "positiveAngle angle = angle + 2 * pi * of_int (1 - trunc (angle / (2 * pi)))"
    using True by (simp add: positiveAngle_def Let_def js_rem_def algebra_simps)
  then show ?thesis
    by blast
next
  case False
  have "positiveAngle angle = angle + 2 * pi * of_int (- trunc (angle / (2 * pi)))"
    using False by (simp add: positiveAngle_def Let_def js_rem_def algebra_simps)
  then show ?thesis
    by blast
qed

lemma color_by_positiveAngle:
  "(getQuadrantColor angle = ''text-emerald-600'' \<longleftrightarrow> positiveAngle angle < pi / 2) \<and>
   (getQuadrantColor angle = ''text-blue-600'' \<longleftrightarrow>
      pi / 2 \<le> positiveAngle angle \<and> positiveAngle angle < pi) \<and>
   (getQuadrantColor angle = ''text-orange-600'' \<longleftrightarrow>
      pi \<le> positiveAngle angle \<and> positiveAngle angle < 3 * pi / 2) \<and>
   (getQuadrantColor angle = ''text-rose-600'' \<longleftrightarrow> 3 * pi / 2 \<le> positiveAngle angle)"
proof -
  have "pi / 2 < pi" "pi < 3 * pi / 2"
    using pi_gt_zero by linarith+
  then show ?thesis
    unfolding getQuadrantColor_def by (auto; linarith)
qed

subsection \<open>Angles of one turn\<close>

text \<open>
  Claim C6. On \<open>[0, 2 * pi)\<close> the colour of \<^verbatim>\<open>getQuadrantColor\<close> is that of the first
  quadrant exactly on \<open>[0, pi / 2)\<close>, of the second exactly on \<open>[pi / 2, pi)\<close>, of the third
  exactly on \<open>[pi, 3 * pi / 2)\<close> and of the fourth exactly on \<open>[3 * pi / 2, 2 * pi)\<close>: four
  half-open quarters with no gap and no overlap. Each of the boundaries \<open>0\<close>, \<open>pi / 2\<close>,
  \<open>pi\<close>, \<open>3 * pi / 2\<close> has the colour of the quadrant that starts there.
\<close>

theorem quadrant_partition:
  assumes "0 \<le> \<theta>" and "\<theta> < 2 * pi"
  shows "(getQuadrantColor \<theta> = ''text-emerald-600'' \<longleftrightarrow> 0 \<le> \<theta> \<and> \<theta> < pi / 2) \<and>
         (getQuadrantColor \<theta> = ''text-blue-600'' \<longleftrightarrow> pi / 2 \<le> \<theta> \<and> \<theta> < pi) \<and>
         (getQuadrantColor \<theta> = ''text-orange-600'' \<longleftrightarrow> pi \<le> \<theta> \<and> \<theta> < 3 * pi / 2) \<and>
         (getQuadrantColor \<theta> = ''text-rose-600'' \<longleftrightarrow> 3 * pi / 2 \<le> \<theta> \<and> \<theta> < 2 * pi) \<and>
         getQuadrantColor 0 = ''text-emerald-600'' \<and>
         getQuadrantColor (pi / 2) = ''text-blue-600'' \<and>
         getQuadrantColor pi = ''text-orange-600'' \<and>
         getQuadrantColor (3 * pi / 2) = ''text-rose-600''"
proof -
  have "positiveAngle \<theta> = \<theta>"
    using assms by (rule positiveAngle_id)
  moreover have "positiveAngle 0 = 0" "positiveAngle (pi / 2) = pi / 2" "positiveAngle pi = pi"
      "positiveAngle (3 * pi / 2) = 3 * pi / 2"
    using pi_gt_zero by (simp_all add: positiveAngle_id)
  ultimately show ?thesis
    using assms pi_gt_zero by (simp add: getQuadrantColor_def)
qed

theorem quadrant_partition_witness:
  "0 \<le> 5 * pi / 4 \<and> 5 * pi / 4 < 2 * pi \<and> getQuadrantColor (5 * pi / 4) = ''text-orange-600''"
proof -
  have b: "0 \<le> 5 * pi / 4" "5 * pi / 4 < 2 * pi" "pi \<le> 5 * pi / 4" "5 * pi / 4 < 3 * pi / 2"
    using pi_gt_zero by linarith+
  then show ?thesis
    using quadrant_partition [OF b(1) b(2)] by blast
qed

subsection \<open>Every angle\<close>

text \<open>
  Claim C10. For every real angle the normalised angle of \<^verbatim>\<open>getQuadrantColor\<close> (the
  remainder modulo \<open>2 * pi\<close>, plus \<open>2 * pi\<close> when the remainder is negative) lies in
  \<open>[0, 2 * pi)\<close> and differs from the angle by whole turns, and the colour returned is the
  one of the quarter that holds the normalised angle, so exactly one of the four. Two
  angles outside \<open>[-2 * pi, 2 * pi]\<close> show it.
\<close>

theorem quadrant_total:
  "0 \<le> positiveAngle \<theta> \<and> positiveAngle \<theta> < 2 * pi \<and>
   (\<exists>n::int. positiveAngle \<theta> = \<theta> + 2 * pi * of_int n) \<and>
   (getQuadrantColor \<theta> = ''text-emerald-600'' \<longleftrightarrow>
      0 \<le> positiveAngle \<theta> \<and> positiveAngle \<theta> < pi / 2) \<and>
   (getQuadrantColor \<theta> = ''text-blue-600'' \<longleftrightarrow>
      pi / 2 \<le> positiveAngle \<theta> \<and> positiveAngle \<theta> < pi) \<and>
   (getQuadrantColor \<theta> = ''text-orange-600'' \<longleftrightarrow>
      pi \<le> positiveAngle \<theta> \<and> positiveAngle \<theta> < 3 * pi / 2) \<and>
   (getQuadrantColor \<theta> = ''text-rose-600'' \<longleftrightarrow>
      3 * pi / 2 \<le> positiveAngle \<theta> \<and> positiveAngle \<theta> < 2 * pi) \<and>
   getQuadrantColor (- (5 * pi / 2)) = ''text-rose-600'' \<and>
   getQuadrantColor (9 * pi / 4) = ''text-emerald-600''"
proof -
  have "trunc (- (5 / 4)) = - 1" "trunc (9 / 8) = 1"
    by (simp_all add: trunc_def)
  then have "positiveAngle (- (5 * pi / 2)) = 3 * pi / 2" "positiveAngle (9 * pi / 4) = pi / 4"
    using pi_gt_zero by (simp_all add: positiveAngle_def Let_def js_rem_def)
  then have "3 * pi / 2 \<le> positiveAngle (- (5 * pi / 2))" "positiveAngle (9 * pi / 4) < pi / 2"
    using pi_gt_zero by linarith+
  then have "getQuadrantColor (- (5 * pi / 2)) = ''text-rose-600''"
      "getQuadrantColor (9 * pi / 4) = ''text-emerald-600''"
    using color_by_positiveAngle [of "- (5 * pi / 2)"] color_by_positiveAngle [of "9 * pi / 4"]
    by blast+
  then show ?thesis
    using positiveAngle_range [of \<theta>] positiveAngle_turns [of \<theta>]
      color_by_positiveAngle [of \<theta>]
    by simp
qed

section \<open>Degrees\<close>

lemma Math_round_error: "\<bar>of_int (Math_round v) - v\<bar> \<le> 1 / 2"
  unfolding Math_round_def by linarith

lemma displayDegrees_error: "\<bar>displayDegrees angle - angle * 180 / pi\<bar> \<le> 1 / 20"
proof -
  have "\<bar>of_int (Math_round ((angle * 180 / pi) * 10)) - (angle * 180 / pi) * 10\<bar> \<le> 1 / 2"
    by (rule Math_round_error)
  then show ?thesis
    unfolding displayDegrees_def by (simp add: field_simps abs_le_iff)
qed

text \<open>
  Claim C7. The degrees shown for an angle (\<^verbatim>\<open>displayDegrees\<close>: \<open>\<theta> * 180 / pi\<close> rounded to
  one decimal) and typed back into the degree field (\<^verbatim>\<open>handleDegreeChange\<close>:
  \<open>deg * pi / 180\<close>) give the angle again up to half a tenth of a degree, which is within
  the tolerance of \<open>0.1\<close> degrees and below \<open>0.0018\<close> radians. It holds for every real
  angle, so for those of \<open>[0, 2 * pi)\<close>.
\<close>

theorem degrees_round_trip:
  "\<bar>handleDegreeChange (Num (displayDegrees \<theta>)) angle - \<theta>\<bar> \<le> (1 / 20) * pi / 180 \<and>
   \<bar>handleDegreeChange (Num (displayDegrees \<theta>)) angle - \<theta>\<bar> < (1 / 10) * pi / 180 \<and>
   \<bar>handleDegreeChange (Num (displayDegrees \<theta>)) angle - \<theta>\<bar> < 0.0018 \<and>
   \<bar>displayDegrees \<theta> - \<theta> * 180 / pi\<bar> \<le> 1 / 20 \<and>
   (\<exists>n::int. displayDegrees \<theta> = of_int n / 10)"
proof -
  have d: "\<bar>displayDegrees \<theta> - \<theta> * 180 / pi\<bar> \<le> 1 / 20"
    by (rule displayDegrees_error)
  have "handleDegreeChange (Num (displayDegrees \<theta>)) angle - \<theta>
      = (displayDegrees \<theta> - \<theta> * 180 / pi) * (pi / 180)"
    by (simp add: handleDegreeChange_def field_simps)
  then have "\<bar>handleDegreeChange (Num (displayDegrees \<theta>)) angle - \<theta>\<bar>
      = \<bar>(displayDegrees \<theta> - \<theta> * 180 / pi) * (pi / 180)\<bar>"
    by (simp only:)
  also have "\<dots> = \<bar>displayDegrees \<theta> - \<theta> * 180 / pi\<bar> * (pi / 180)"
    by (simp add: abs_mult)
  also have "\<dots> \<le> (1 / 20) * (pi / 180)"
    using d by (intro mult_right_mono) simp_all
  finally have r: "\<bar>handleDegreeChange (Num (displayDegrees \<theta>)) angle - \<theta>\<bar>
      \<le> (1 / 20) * pi / 180"
    by simp
  have "(1 / 20) * pi / 180 < (1 / 10) * pi / 180" "(1 / 20) * pi / 180 < 0.0018"
    using pi_gt_zero pi_less_4 by simp_all
  then have "\<bar>handleDegreeChange (Num (displayDegrees \<theta>)) angle - \<theta>\<bar> < (1 / 10) * pi / 180"
      "\<bar>handleDegreeChange (Num (displayDegrees \<theta>)) angle - \<theta>\<bar> < 0.0018"
    using r by linarith+
  moreover have "\<exists>n::int. displayDegrees \<theta> = of_int n / 10"
    unfolding displayDegrees_def by blast
  ultimately show ?thesis
    using r d by blast
qed

section \<open>Fixed notation\<close>

lemma point_in_fixed_notation: "0 < f \<Longrightarrow> CHR ''.'' \<in> set (fixed_notation f n)"
  by (simp add: fixed_notation_def Let_def)

lemma toFixed_int_error: "\<bar>real (toFixed_int f x) - \<bar>x\<bar> * 10 ^ f\<bar> \<le> 1 / 2"
proof -
  have "0 \<le> \<bar>x\<bar> * 10 ^ f + 1 / 2"
    by simp
  then have "0 \<le> \<lfloor>\<bar>x\<bar> * 10 ^ f + 1 / 2\<rfloor>"
    by simp
  then have "real (toFixed_int f x) = of_int \<lfloor>\<bar>x\<bar> * 10 ^ f + 1 / 2\<rfloor>"
    by (simp add: toFixed_int_def)
  then show ?thesis
    by linarith
qed

lemma toFixed_int_scaled_error: "\<bar>real (toFixed_int f x) / 10 ^ f - \<bar>x\<bar>\<bar> \<le> 1 / (2 * 10 ^ f)"
proof -
  have e: "\<bar>real (toFixed_int f x) - \<bar>x\<bar> * 10 ^ f\<bar> \<le> 1 / 2"
    by (rule toFixed_int_error)
  have p: "(0::real) < 10 ^ f"
    by simp
  have "real (toFixed_int f x) / 10 ^ f - \<bar>x\<bar> = (real (toFixed_int f x) - \<bar>x\<bar> * 10 ^ f) / 10 ^ f"
    by (simp add: field_simps)
  then have "\<bar>real (toFixed_int f x) / 10 ^ f - \<bar>x\<bar>\<bar>
      = \<bar>real (toFixed_int f x) - \<bar>x\<bar> * 10 ^ f\<bar> / 10 ^ f"
    by (simp only: abs_divide abs_of_pos [OF p])
  also have "\<dots> \<le> (1 / 2) / 10 ^ f"
    using e p by (simp only: divide_right_mono less_imp_le)
  finally show ?thesis
    by simp
qed

lemma parseFloat_toFixed_error: "\<bar>parseFloat_toFixed f x - x\<bar> \<le> 1 / (2 * 10 ^ f)"
  using toFixed_int_scaled_error [of f x]
  by (cases "x < 0") (simp_all add: parseFloat_toFixed_def abs_le_iff)

lemma toFixed_fixed:
  "\<bar>x\<bar> < 10 ^ 21 \<Longrightarrow>
   toFixed ts f x = (if x < 0 then ''-'' else []) @ fixed_notation f (toFixed_int f x)"
  by (simp add: toFixed_def)

lemma toFixed_has_point: "\<bar>x\<bar> < 10 ^ 21 \<Longrightarrow> 0 < f \<Longrightarrow> CHR ''.'' \<in> set (toFixed ts f x)"
  by (simp add: toFixed_fixed point_in_fixed_notation)

section \<open>The tangent\<close>

lemma tan_small:
  fixes \<theta> :: real
  assumes "\<not> \<bar>cos \<theta>\<bar> < 0.001"
  shows "cos \<theta> \<noteq> 0 \<and> \<bar>sin \<theta> / cos \<theta>\<bar> < 10 ^ 21"
proof -
  have c: "1 / 1000 \<le> \<bar>cos \<theta>\<bar>"
    using assms by simp
  then have nz: "cos \<theta> \<noteq> 0"
    by auto
  have "\<bar>sin \<theta> / cos \<theta>\<bar> = \<bar>sin \<theta>\<bar> / \<bar>cos \<theta>\<bar>"
    by (simp add: abs_divide)
  also have "\<dots> \<le> 1 / \<bar>cos \<theta>\<bar>"
    by (intro divide_right_mono) simp_all
  also have "\<dots> \<le> 1000"
    using c nz by (simp add: field_simps)
  finally show ?thesis
    using nz by simp
qed

text \<open>
  Claim C4. For every real angle the tangent row shows the infinity sign if and only if
  \<open>\<bar>cos \<theta>\<bar> < 0.001\<close>. Otherwise the cosine is not zero, so the quotient
  \<open>sin \<theta> / cos \<theta>\<close> is the tangent, and the row shows that number in fixed notation
  with four decimals: a minus sign when it is negative, then the digits of the integer
  nearest to ten thousand times its absolute value. No angle makes the computation fail:
  at a cosine of zero the sign is shown.
\<close>

theorem tangent_sentinel:
  "(tanText ts \<theta> = infinity_sym \<longleftrightarrow> \<bar>cos \<theta>\<bar> < 0.001) \<and>
   (\<not> \<bar>cos \<theta>\<bar> < 0.001 \<longrightarrow>
      cos \<theta> \<noteq> 0 \<and>
      tanText ts \<theta> =
        (if sin \<theta> / cos \<theta> < 0 then ''-'' else []) @
        fixed_notation 4 (toFixed_int 4 (sin \<theta> / cos \<theta>)) \<and>
      \<bar>real (toFixed_int 4 (sin \<theta> / cos \<theta>)) / 10 ^ 4 - \<bar>sin \<theta> / cos \<theta>\<bar>\<bar> \<le> 1 / 20000)"
proof (cases "\<bar>cos \<theta>\<bar> < 0.001")
  case True
  then show ?thesis
    by (simp add: tanText_def Let_def)
next
  case False
  then have s: "cos \<theta> \<noteq> 0" "\<bar>sin \<theta> / cos \<theta>\<bar> < 10 ^ 21"
    using tan_small [of \<theta>] by simp_all
  have t: "tanText ts \<theta> = toFixed ts 4 (sin \<theta> / cos \<theta>)"
    using False by (simp add: tanText_def Let_def)
  have "CHR ''.'' \<in> set (tanText ts \<theta>)"
    unfolding t using s(2) by (rule toFixed_has_point) simp
  moreover have "CHR ''.'' \<notin> set infinity_sym"
    by (simp add: infinity_sym_def)
  ultimately have "tanText ts \<theta> \<noteq> infinity_sym"
    by metis
  moreover have "\<bar>real (toFixed_int 4 (sin \<theta> / cos \<theta>)) / 10 ^ 4 - \<bar>sin \<theta> / cos \<theta>\<bar>\<bar> \<le> 1 / 20000"
    using toFixed_int_scaled_error [of 4 "sin \<theta> / cos \<theta>"] by simp
  ultimately show ?thesis
    using False s(1) t toFixed_fixed [OF s(2), of ts 4] by simp
qed

theorem tangent_sentinel_witness:
  "\<not> \<bar>cos 0\<bar> < (0.001::real) \<and> tanText (\<lambda>_. []) 0 = ''0.0000'' \<and>
   tanText (\<lambda>_. []) (pi / 2) = infinity_sym"
proof -
  have f: "fixed_notation 4 0 = ''0.0000''"
    by code_simp
  have "toFixed_int 4 0 = 0"
    by (simp add: toFixed_int_def)
  then show ?thesis
    using tangent_sentinel [of "\<lambda>_. []" 0] tangent_sentinel [of "\<lambda>_. []" "pi / 2"] f
    by simp
qed

section \<open>The angle of the pointer\<close>

lemma atan2_range: "- pi < atan2 v u \<and> atan2 v u \<le> pi"
proof -
  have lo: "- (pi / 2) < arctan (v / u)"
    by (rule arctan_lbound)
  have hi: "arctan (v / u) < pi / 2"
    by (rule arctan_ubound)
  consider "0 < u" | "u < 0" "0 \<le> v" | "u < 0" "v < 0" | "u = 0"
    by linarith
  then show ?thesis
  proof cases
    case 1
    then have "atan2 v u = arctan (v / u)"
      by (simp add: atan2_def)
    then show ?thesis
      using lo hi pi_gt_zero by linarith
  next
    case 2
    then have "v / u \<le> 0"
      by (simp add: divide_nonneg_neg)
    then have "arctan (v / u) \<le> 0"
      using arctan_monotone' [of "v / u" 0] by simp
    moreover have "atan2 v u = arctan (v / u) + pi"
      using 2 by (simp add: atan2_def)
    ultimately show ?thesis
      using lo pi_gt_zero by linarith
  next
    case 3
    then have "0 < v / u"
      by (simp add: divide_neg_neg)
    then have "0 < arctan (v / u)"
      using arctan_monotone [of 0 "v / u"] by simp
    moreover have "atan2 v u = arctan (v / u) - pi"
      using 3 by (simp add: atan2_def)
    ultimately show ?thesis
      using hi pi_gt_zero by linarith
  next
    case 4
    then have "atan2 v u = pi / 2 \<or> atan2 v u = - (pi / 2) \<or> atan2 v u = 0"
      by (simp add: atan2_def)
    then show ?thesis
      using pi_gt_zero by linarith
  qed
qed

lemma hyp_factor:
  assumes "u \<noteq> 0"
  shows "sqrt (u\<^sup>2 + v\<^sup>2) = \<bar>u\<bar> * sqrt (1 + (v / u)\<^sup>2)"
proof -
  have "u\<^sup>2 + v\<^sup>2 = u\<^sup>2 * (1 + (v / u)\<^sup>2)"
    using assms by (simp add: field_simps power2_eq_square)
  then show ?thesis
    by (simp add: real_sqrt_mult)
qed

lemma atan2_polar:
  "sqrt (u\<^sup>2 + v\<^sup>2) * cos (atan2 v u) = u \<and> sqrt (u\<^sup>2 + v\<^sup>2) * sin (atan2 v u) = v"
proof -
  have pos: "0 < sqrt (1 + (v / u)\<^sup>2)"
    by (simp add: add_pos_nonneg)
  consider "0 < u" | "u < 0" | "u = 0" "0 < v" | "u = 0" "v < 0" | "u = 0" "v = 0"
    by linarith
  then show ?thesis
  proof cases
    case 1
    then show ?thesis
      using pos hyp_factor [of u v] by (simp add: atan2_def cos_arctan sin_arctan)
  next
    case 2
    then show ?thesis
      using pos hyp_factor [of u v] by (simp add: atan2_def cos_arctan sin_arctan)
  next
    case 3
    then show ?thesis
      by (simp add: atan2_def)
  next
    case 4
    then show ?thesis
      by (simp add: atan2_def)
  next
    case 5
    then show ?thesis
      by (simp add: atan2_def)
  qed
qed


lemma updateAngle_Some:
  "updateAngle (Some rect) clientX clientY angle =
     (if atan2 (rect_top rect + CENTER_y - clientY) (clientX - rect_left rect - CENTER_x) < 0
      then atan2 (rect_top rect + CENTER_y - clientY) (clientX - rect_left rect - CENTER_x) + 2 * pi
      else atan2 (rect_top rect + CENTER_y - clientY) (clientX - rect_left rect - CENTER_x))"
  by (simp add: updateAngle_def Let_def)

lemma normalised_polar:
  "sqrt (u\<^sup>2 + v\<^sup>2) * cos (if atan2 v u < 0 then atan2 v u + 2 * pi else atan2 v u) = u \<and>
   sqrt (u\<^sup>2 + v\<^sup>2) * sin (if atan2 v u < 0 then atan2 v u + 2 * pi else atan2 v u) = v"
  using atan2_polar [of u v] by simp

lemma atan2_axes:
  assumes "0 < d"
  shows "atan2 0 d = 0" and "atan2 d 0 = pi / 2" and "atan2 0 (- d) = pi"
    and "atan2 (- d) 0 = - (pi / 2)"
  using assms by (simp_all add: atan2_def)

text \<open>
  Claim C5. With the SVG element in place, \<^verbatim>\<open>updateAngle\<close> sets the angle to \<^verbatim>\<open>atan2\<close>
  of the offset of the pointer from the centre, the vertical offset taken upwards, plus
  \<open>2 * pi\<close> when that is negative. The result lies in \<open>[0, 2 * pi)\<close> and is the polar angle
  of the offset. So a pointer at a distance \<open>d > 0\<close> to the right of the centre gives
  \<open>0\<close>, above it \<open>pi / 2\<close>, to the left \<open>pi\<close> and below it \<open>3 * pi / 2\<close>.
\<close>

theorem pointer_angle:
  "updateAngle (Some rect) clientX clientY angle =
     (if atan2 (rect_top rect + CENTER_y - clientY) (clientX - rect_left rect - CENTER_x) < 0
      then atan2 (rect_top rect + CENTER_y - clientY) (clientX - rect_left rect - CENTER_x) + 2 * pi
      else atan2 (rect_top rect + CENTER_y - clientY) (clientX - rect_left rect - CENTER_x)) \<and>
   0 \<le> updateAngle (Some rect) clientX clientY angle \<and>
   updateAngle (Some rect) clientX clientY angle < 2 * pi \<and>
   sqrt ((clientX - (rect_left rect + CENTER_x))\<^sup>2 + ((rect_top rect + CENTER_y) - clientY)\<^sup>2) *
     cos (updateAngle (Some rect) clientX clientY angle) = clientX - (rect_left rect + CENTER_x) \<and>
   sqrt ((clientX - (rect_left rect + CENTER_x))\<^sup>2 + ((rect_top rect + CENTER_y) - clientY)\<^sup>2) *
     sin (updateAngle (Some rect) clientX clientY angle) = (rect_top rect + CENTER_y) - clientY \<and>
   (0 < d \<longrightarrow>
      updateAngle (Some rect) (rect_left rect + CENTER_x + d) (rect_top rect + CENTER_y) angle = 0 \<and>
      updateAngle (Some rect) (rect_left rect + CENTER_x) (rect_top rect + CENTER_y - d) angle = pi / 2 \<and>
      updateAngle (Some rect) (rect_left rect + CENTER_x - d) (rect_top rect + CENTER_y) angle = pi \<and>
      updateAngle (Some rect) (rect_left rect + CENTER_x) (rect_top rect + CENTER_y + d) angle
        = 3 * pi / 2)"
proof -
  let ?u = "clientX - rect_left rect - CENTER_x"
  let ?v = "rect_top rect + CENTER_y - clientY"
  have r: "- pi < atan2 ?v ?u" "atan2 ?v ?u \<le> pi"
    using atan2_range [of ?v ?u] by simp_all
  have range: "0 \<le> updateAngle (Some rect) clientX clientY angle"
      "updateAngle (Some rect) clientX clientY angle < 2 * pi"
    unfolding updateAngle_Some using r pi_gt_zero by (auto split: if_splits; linarith)+
  have eq: "clientX - (rect_left rect + CENTER_x) = ?u"
    by simp
  have polar:
    "sqrt ((clientX - (rect_left rect + CENTER_x))\<^sup>2 + ((rect_top rect + CENTER_y) - clientY)\<^sup>2) *
       cos (updateAngle (Some rect) clientX clientY angle) = clientX - (rect_left rect + CENTER_x)"
    "sqrt ((clientX - (rect_left rect + CENTER_x))\<^sup>2 + ((rect_top rect + CENTER_y) - clientY)\<^sup>2) *
       sin (updateAngle (Some rect) clientX clientY angle) = (rect_top rect + CENTER_y) - clientY"
    unfolding updateAngle_Some eq using normalised_polar [of ?u ?v] by blast+
  have axes: "updateAngle (Some rect) (rect_left rect + CENTER_x + d) (rect_top rect + CENTER_y) angle = 0"
      "updateAngle (Some rect) (rect_left rect + CENTER_x) (rect_top rect + CENTER_y - d) angle = pi / 2"
      "updateAngle (Some rect) (rect_left rect + CENTER_x - d) (rect_top rect + CENTER_y) angle = pi"
      "updateAngle (Some rect) (rect_left rect + CENTER_x) (rect_top rect + CENTER_y + d) angle
        = 3 * pi / 2"
    if "0 < d"
    using that by (simp_all add: updateAngle_Some atan2_axes)
  show ?thesis
    using range polar axes updateAngle_Some [of rect clientX clientY angle] by blast
qed

theorem pointer_angle_witness:
  "(0::real) < 5 \<and>
   updateAngle (Some \<lparr>rect_left = 10, rect_top = 20\<rparr>) 265 270 1 = 0 \<and>
   updateAngle (Some \<lparr>rect_left = 10, rect_top = 20\<rparr>) 260 265 1 = pi / 2 \<and>
   updateAngle (Some \<lparr>rect_left = 10, rect_top = 20\<rparr>) 255 270 1 = pi \<and>
   updateAngle (Some \<lparr>rect_left = 10, rect_top = 20\<rparr>) 260 275 1 = 3 * pi / 2"
  using pointer_angle [of "\<lparr>rect_left = 10, rect_top = 20\<rparr>" 0 0 1 5]
  by (simp add: CENTER_x_def CENTER_y_def)

section \<open>The sampling loop\<close>

lemma step_pos: "0 < step"
  by (simp add: step_def end_val_def start_def)

lemma turns_step:
  assumes "x \<le> end_val"
  shows "turns x = Suc (turns (x + step))"
proof -
  have q: "(end_val - (x + step)) / step = (end_val - x) / step - 1"
    using step_pos by (simp add: field_simps)
  have nn: "0 \<le> (end_val - x) / step"
    using assms step_pos by simp
  show ?thesis
  proof (cases "x + step \<le> end_val")
    case True
    define z where "z = \<lfloor>(end_val - x) / step\<rfloor>"
    have "1 \<le> (end_val - x) / step"
      using True step_pos by (simp add: field_simps)
    then have "1 \<le> z"
      unfolding z_def by linarith
    moreover have "turns x = nat z + 1"
      using assms by (simp add: turns_def z_def)
    moreover have "turns (x + step) = nat (z - 1) + 1"
      using True q by (simp add: turns_def z_def)
    ultimately show ?thesis
      by simp
  next
    case False
    then have "(end_val - x) / step < 1"
      using step_pos by (simp add: field_simps)
    then have "\<lfloor>(end_val - x) / step\<rfloor> = 0"
      using nn by linarith
    then show ?thesis
      using assms False by (simp add: turns_def)
  qed
qed

lemma sample_loop_map:
  "sample_loop params x points =
     points @ map (\<lambda>i. point_at params (x + real i * step)) [0..<turns x]"
proof (induction params x points rule: sample_loop.induct)
  case (1 params x points)
  show ?case
  proof (cases "x \<le> end_val")
    case True
    have "sample_loop params x points
        = sample_loop params (x + step) (points @ [point_at params x])"
      using True by (subst sample_loop.simps) simp
    also have "\<dots> = (points @ [point_at params x]) @
        map (\<lambda>i. point_at params (x + step + real i * step)) [0..<turns (x + step)]"
      using True by (rule "1.IH")
    also have "\<dots> = points @
        map (\<lambda>i. point_at params (x + real i * step)) [0..<Suc (turns (x + step))]"
      by (simp add: map_upt_Suc algebra_simps del: upt_Suc)
    finally show ?thesis
      using turns_step [OF True] by simp
  next
    case False
    then show ?thesis
      by (subst sample_loop.simps) (simp add: turns_def)
  qed
qed

lemma turns_start: "turns start = 201"
proof -
  have "(end_val - start) / step = 200"
    by (simp add: step_def end_val_def start_def)
  moreover have "start \<le> end_val"
    by (simp add: end_val_def start_def)
  ultimately show ?thesis
    by (simp add: turns_def)
qed

lemma data_map:
  "data params = map (\<lambda>i. point_at params (- 2 * pi + real i * (4 * pi / 200))) [0..<201]"
proof -
  have s: "step = 4 * pi / 200" "start = - 2 * pi"
    by (simp_all add: step_def end_val_def start_def)
  have "data params = map (\<lambda>i. point_at params (start + real i * step)) [0..<turns start]"
    unfolding data_def by (simp only: sample_loop_map append_Nil)
  then have "data params = map (\<lambda>i. point_at params (start + real i * step)) [0..<201]"
    by (simp only: turns_start)
  then show ?thesis
    by (simp only: s)
qed

lemma length_data: "length (data params) = 201"
  by (simp add: data_map del: upt_Suc)

lemma nth_data:
  "i < 201 \<Longrightarrow> data params ! i = point_at params (- 2 * pi + real i * (4 * pi / 200))"
  by (simp add: data_map del: upt_Suc)


lemma parseFloat_toFixed_0: "parseFloat_toFixed f 0 = 0"
  by (simp add: parseFloat_toFixed_def toFixed_int_def)

lemma parseFloat_toFixed_grid:
  assumes "\<bar>x\<bar> < 10 ^ 21"
  shows "\<exists>n::int. parseFloat_toFixed f x = of_int n / 10 ^ f"
proof (cases "x < 0")
  case True
  then have "parseFloat_toFixed f x = of_int (- int (toFixed_int f x)) / 10 ^ f"
    using assms by (simp add: parseFloat_toFixed_def)
  then show ?thesis
    by blast
next
  case False
  then have "parseFloat_toFixed f x = of_int (int (toFixed_int f x)) / 10 ^ f"
    using assms by (simp add: parseFloat_toFixed_def)
  then show ?thesis
    by blast
qed

text \<open>
  Claim C2. The loop of \<^verbatim>\<open>data\<close> makes exactly 201 points, at
  \<open>x = - 2 * pi + i * (4 * pi / 200)\<close> for \<open>i = 0, \<dots>, 200\<close>: the first at \<open>- 2 * pi\<close>, the
  last at \<open>2 * pi\<close>, both ends included. With the default parameters the first point has
  \<open>y = 0\<close>, and so has the point at \<open>x = 0\<close>.
\<close>

theorem default_plot_201_points:
  "length (data params) = 201 \<and>
   data params = map (\<lambda>i. point_at params (- 2 * pi + real i * (4 * pi / 200))) [0..<201] \<and>
   xVal (data params ! 0) = - 2 * pi \<and>
   xVal (data params ! 200) = 2 * pi \<and>
   y (data defaultParams ! 0) = 0 \<and>
   xVal (data defaultParams ! 100) = 0 \<and>
   y (data defaultParams ! 100) = 0"
proof -
  have l: "length (data params) = 201"
    by (rule length_data)
  have m: "data params = map (\<lambda>i. point_at params (- 2 * pi + real i * (4 * pi / 200))) [0..<201]"
    by (rule data_map)
  have x0: "xVal (data params ! 0) = - 2 * pi"
    by (simp add: nth_data point_at_def)
  have x200: "xVal (data params ! 200) = 2 * pi"
    by (simp add: nth_data point_at_def)
  have p0: "data defaultParams ! 0 = point_at defaultParams (- 2 * pi)"
    by (simp add: nth_data)
  have p100: "data defaultParams ! 100 = point_at defaultParams 0"
    by (simp add: nth_data)
  have y0: "y (data defaultParams ! 0) = 0"
    unfolding p0 by (simp add: point_at_def defaultParams_def parseFloat_toFixed_0)
  have x100: "xVal (data defaultParams ! 100) = 0"
    unfolding p100 by (simp add: point_at_def)
  have y100: "y (data defaultParams ! 100) = 0"
    unfolding p100 by (simp add: point_at_def defaultParams_def parseFloat_toFixed_0)
  from l m x0 x200 y0 x100 y100 show ?thesis
    by blast
qed


text \<open>
  Claim C8. Every point of \<^verbatim>\<open>data\<close> has for \<open>y\<close> the value
  \<open>A * sin (omega * x + phi * pi) + k\<close> at its own \<open>x\<close> and for \<open>standard\<close> the value \<open>sin x\<close>,
  each rounded to three decimals by \<^verbatim>\<open>parseFloat(v.toFixed(3))\<close>: at most half a thousandth
  away and, below \<open>10 ^ 21\<close>, a whole number of thousandths. With \<open>A = 2\<close>, \<open>omega = 1\<close>, \<open>phi = 0.5\<close>,
  \<open>k = 1\<close> the point at \<open>x = 0\<close> has \<open>y = 3\<close>.
\<close>

theorem every_point_rounded:
  assumes "pt \<in> set (data params)"
  shows "y pt = parseFloat_toFixed 3
             (A params * sin (omega params * xVal pt + phi params * pi) + k params) \<and>
         standard pt = parseFloat_toFixed 3 (sin (xVal pt)) \<and>
         \<bar>y pt - (A params * sin (omega params * xVal pt + phi params * pi) + k params)\<bar>
           \<le> 1 / 2000 \<and>
         \<bar>standard pt - sin (xVal pt)\<bar> \<le> 1 / 2000 \<and>
         (\<bar>A params * sin (omega params * xVal pt + phi params * pi) + k params\<bar> < 10 ^ 21 \<longrightarrow>
            (\<exists>n::int. y pt = of_int n / 1000)) \<and>
         (\<exists>n::int. standard pt = of_int n / 1000) \<and>
         data \<lparr>A = 2, omega = 1, phi = 0.5, k = 1\<rparr> ! 100 = \<lparr>xVal = 0, y = 3, standard = 0\<rparr>"
proof -
  obtain i where "pt = point_at params (- 2 * pi + real i * (4 * pi / 200))"
    using assms unfolding data_map by auto
  then have v: "y pt = parseFloat_toFixed 3
        (A params * sin (omega params * xVal pt + phi params * pi) + k params)"
    and w: "standard pt = parseFloat_toFixed 3 (sin (xVal pt))"
    by (simp_all add: point_at_def)
  have ev: "\<bar>y pt - (A params * sin (omega params * xVal pt + phi params * pi) + k params)\<bar>
      \<le> 1 / 2000"
    unfolding v
    using parseFloat_toFixed_error
      [of 3 "A params * sin (omega params * xVal pt + phi params * pi) + k params"]
    by simp
  have ew: "\<bar>standard pt - sin (xVal pt)\<bar> \<le> 1 / 2000"
    unfolding w using parseFloat_toFixed_error [of 3 "sin (xVal pt)"] by simp
  have gv: "\<exists>n::int. y pt = of_int n / 1000"
    if "\<bar>A params * sin (omega params * xVal pt + phi params * pi) + k params\<bar> < 10 ^ 21"
    unfolding v using parseFloat_toFixed_grid [OF that, of 3] by simp
  have "(1::real) < 10 ^ 21"
    by simp
  then have "\<bar>sin (xVal pt)\<bar> < 10 ^ 21"
    using abs_sin_le_one [of "xVal pt"] by linarith
  then have gw: "\<exists>n::int. standard pt = of_int n / 1000"
    unfolding w using parseFloat_toFixed_grid [of "sin (xVal pt)" 3] by simp
  have "parseFloat_toFixed 3 3 = 3"
    by (simp add: parseFloat_toFixed_def toFixed_int_def)
  then have "point_at \<lparr>A = 2, omega = 1, phi = 0.5, k = 1\<rparr> 0 = \<lparr>xVal = 0, y = 3, standard = 0\<rparr>"
    by (simp add: point_at_def parseFloat_toFixed_0)
  moreover have "data \<lparr>A = 2, omega = 1, phi = 0.5, k = 1\<rparr> ! 100
      = point_at \<lparr>A = 2, omega = 1, phi = 0.5, k = 1\<rparr> 0"
    by (simp add: nth_data)
  ultimately have ex: "data \<lparr>A = 2, omega = 1, phi = 0.5, k = 1\<rparr> ! 100
      = \<lparr>xVal = 0, y = 3, standard = 0\<rparr>"
    by simp
  from v w ev ew gv gw ex show ?thesis
    by blast
qed

theorem every_point_rounded_witness:
  "data \<lparr>A = 2, omega = 1, phi = 0.5, k = 1\<rparr> ! 50
     \<in> set (data \<lparr>A = 2, omega = 1, phi = 0.5, k = 1\<rparr>) \<and>
   xVal (data \<lparr>A = 2, omega = 1, phi = 0.5, k = 1\<rparr> ! 50) = - pi \<and>
   y (data \<lparr>A = 2, omega = 1, phi = 0.5, k = 1\<rparr> ! 50) = - 1 \<and>
   standard (data \<lparr>A = 2, omega = 1, phi = 0.5, k = 1\<rparr> ! 50) = 0"
proof -
  have mem: "data \<lparr>A = 2, omega = 1, phi = 0.5, k = 1\<rparr> ! 50
      \<in> set (data \<lparr>A = 2, omega = 1, phi = 0.5, k = 1\<rparr>)"
    by (rule nth_mem) (simp add: length_data)
  have x: "xVal (data \<lparr>A = 2, omega = 1, phi = 0.5, k = 1\<rparr> ! 50) = - pi"
    by (simp add: nth_data point_at_def)
  have s: "sin (- pi + pi / 2) = - 1"
    by (simp add: sin_add)
  have r: "parseFloat_toFixed 3 (- 1) = - 1"
    by (simp add: parseFloat_toFixed_def toFixed_int_def)
  show ?thesis
    using every_point_rounded [OF mem] mem x s r
    by (simp add: parseFloat_toFixed_0)
qed

text \<open>
  Claim C9. For any two parameter values the two plots have the same \<open>x\<close> values and the
  same \<open>standard\<close> values, point by point: neither the grid nor the reference curve
  \<open>sin x\<close> depends on the parameters.
\<close>

theorem grid_and_reference_independent:
  "map xVal (data p1) = map xVal (data p2) \<and>
   map standard (data p1) = map standard (data p2) \<and>
   length (data p1) = length (data p2)"
  by (simp add: data_map point_at_def o_def del: upt_Suc)

section \<open>Tick labels\<close>

lemma find_special:
  "find P special_cases =
     (if P (0, ''0'') then Some (0, ''0'')
      else if P (1, pi_sym) then Some (1, pi_sym)
      else if P (- 1, ''-'' @ pi_sym) then Some (- 1, ''-'' @ pi_sym)
      else if P (2, ''2'' @ pi_sym) then Some (2, ''2'' @ pi_sym)
      else if P (- 2, ''-2'' @ pi_sym) then Some (- 2, ''-2'' @ pi_sym)
      else if P (0.5, pi_sym @ ''/2'') then Some (0.5, pi_sym @ ''/2'')
      else if P (- 0.5, ''-'' @ pi_sym @ ''/2'') then Some (- 0.5, ''-'' @ pi_sym @ ''/2'')
      else None)"
  unfolding special_cases_def by (simp only: find.simps)

lemma formatXAxis_spec: "formatXAxis ts x = axisTickLabel_spec ts x"
  unfolding formatXAxis_def axisTickLabel_spec_def Let_def find_special
  by (simp split: if_splits)


lemma hundredth: "(0.01::real) = 1 / 100"
  by simp

lemma formatXAxis_zero:
  assumes "\<bar>x / pi\<bar> < 0.01"
  shows "formatXAxis ts x = ''0''"
proof -
  have h: "\<bar>x / pi\<bar> < 1 / 100"
    using assms unfolding hundredth .
  show ?thesis
    unfolding formatXAxis_def Let_def hundredth by (simp only: h if_True)
qed

lemma formatXAxis_pi:
  assumes "\<bar>x / pi - 1\<bar> < 0.01"
  shows "formatXAxis ts x = pi_sym"
proof -
  have h: "\<bar>x / pi - 1\<bar> < 1 / 100"
    using assms unfolding hundredth .
  have n: "\<not> \<bar>x / pi\<bar> < 1 / 100"
    using h by linarith+
  show ?thesis
    unfolding formatXAxis_def Let_def hundredth by (simp only: h n if_True if_False)
qed

lemma formatXAxis_minus_pi:
  assumes "\<bar>x / pi + 1\<bar> < 0.01"
  shows "formatXAxis ts x = ''-'' @ pi_sym"
proof -
  have h: "\<bar>x / pi + 1\<bar> < 1 / 100"
    using assms unfolding hundredth .
  have n: "\<not> \<bar>x / pi\<bar> < 1 / 100" "\<not> \<bar>x / pi - 1\<bar> < 1 / 100"
    using h by linarith+
  show ?thesis
    unfolding formatXAxis_def Let_def hundredth by (simp only: h n if_True if_False)
qed

lemma formatXAxis_2pi:
  assumes "\<bar>x / pi - 2\<bar> < 0.01"
  shows "formatXAxis ts x = ''2'' @ pi_sym"
proof -
  have h: "\<bar>x / pi - 2\<bar> < 1 / 100"
    using assms unfolding hundredth .
  have n: "\<not> \<bar>x / pi\<bar> < 1 / 100" "\<not> \<bar>x / pi - 1\<bar> < 1 / 100" "\<not> \<bar>x / pi + 1\<bar> < 1 / 100"
    using h by linarith+
  show ?thesis
    unfolding formatXAxis_def Let_def hundredth by (simp only: h n if_True if_False)
qed

lemma formatXAxis_minus_2pi:
  assumes "\<bar>x / pi + 2\<bar> < 0.01"
  shows "formatXAxis ts x = ''-2'' @ pi_sym"
proof -
  have h: "\<bar>x / pi + 2\<bar> < 1 / 100"
    using assms unfolding hundredth .
  have n: "\<not> \<bar>x / pi\<bar> < 1 / 100" "\<not> \<bar>x / pi - 1\<bar> < 1 / 100" "\<not> \<bar>x / pi + 1\<bar> < 1 / 100" "\<not> \<bar>x / pi - 2\<bar> < 1 / 100"
    using h by linarith+
  show ?thesis
    unfolding formatXAxis_def Let_def hundredth by (simp only: h n if_True if_False)
qed

lemma formatXAxis_half_pi:
  assumes "\<bar>x / pi - 0.5\<bar> < 0.01"
  shows "formatXAxis ts x = pi_sym @ ''/2''"
proof -
  have h: "\<bar>x / pi - 0.5\<bar> < 1 / 100"
    using assms unfolding hundredth .
  have n: "\<not> \<bar>x / pi\<bar> < 1 / 100" "\<not> \<bar>x / pi - 1\<bar> < 1 / 100" "\<not> \<bar>x / pi + 1\<bar> < 1 / 100" "\<not> \<bar>x / pi - 2\<bar> < 1 / 100" "\<not> \<bar>x / pi + 2\<bar> < 1 / 100"
    using h by linarith+
  show ?thesis
    unfolding formatXAxis_def Let_def hundredth by (simp only: h n if_True if_False)
qed

lemma formatXAxis_minus_half_pi:
  assumes "\<bar>x / pi + 0.5\<bar> < 0.01"
  shows "formatXAxis ts x = ''-'' @ pi_sym @ ''/2''"
proof -
  have h: "\<bar>x / pi + 0.5\<bar> < 1 / 100"
    using assms unfolding hundredth .
  have n: "\<not> \<bar>x / pi\<bar> < 1 / 100" "\<not> \<bar>x / pi - 1\<bar> < 1 / 100" "\<not> \<bar>x / pi + 1\<bar> < 1 / 100" "\<not> \<bar>x / pi - 2\<bar> < 1 / 100" "\<not> \<bar>x / pi + 2\<bar> < 1 / 100" "\<not> \<bar>x / pi - 0.5\<bar> < 1 / 100"
    using h by linarith+
  show ?thesis
    unfolding formatXAxis_def Let_def hundredth by (simp only: h n if_True if_False)
qed

lemma formatXAxis_other:
  assumes "\<not> \<bar>x / pi\<bar> < 0.01" "\<not> \<bar>x / pi - 1\<bar> < 0.01" "\<not> \<bar>x / pi + 1\<bar> < 0.01"
    "\<not> \<bar>x / pi - 2\<bar> < 0.01" "\<not> \<bar>x / pi + 2\<bar> < 0.01" "\<not> \<bar>x / pi - 0.5\<bar> < 0.01"
    "\<not> \<bar>x / pi + 0.5\<bar> < 0.01"
  shows "formatXAxis ts x = toFixed ts 1 (x / pi) @ pi_sym"
  unfolding formatXAxis_def Let_def by (simp only: assms if_False)

lemma guard_in_x: "\<bar>x / pi - c\<bar> < 0.01 \<longleftrightarrow> \<bar>x - c * pi\<bar> < 0.01 * pi"
proof -
  have "x / pi - c = (x - c * pi) / pi"
    by (simp add: field_simps)
  then have "\<bar>x / pi - c\<bar> = \<bar>x - c * pi\<bar> / pi"
    by (simp only: abs_divide abs_of_pos [OF pi_gt_zero])
  then show ?thesis
    by (simp add: field_simps)
qed

lemma toFixed_1_of_3: "toFixed ts 1 3 = ''3.0''"
proof -
  have "toFixed_int 1 3 = 30"
    by (simp add: toFixed_int_def)
  moreover have "fixed_notation 1 30 = ''3.0''"
    by code_simp
  ultimately show ?thesis
    by (simp add: toFixed_def)
qed


text \<open>
  Claim C3. \<^verbatim>\<open>formatXAxis\<close> is the label of the specification: the special cases
  \<open>0\<close>, \<open>pi\<close>, \<open>-pi\<close>, \<open>2 pi\<close>, \<open>-2 pi\<close>, \<open>pi/2\<close>, \<open>-pi/2\<close>, tried in this order, each
  taken when the coefficient \<open>x / pi\<close> is less than \<open>0.01\<close> away from its target (in terms
  of \<open>x\<close>: less than \<open>0.01 * pi\<close> away from the multiple of \<open>pi\<close>); the seven guards
  exclude one another, so each alone decides its label. When none holds the label is the
  coefficient written by \<^verbatim>\<open>toFixed(1)\<close>, which below \<open>10 ^ 21\<close> is the fixed notation with
  one decimal, followed by the sign of \<open>pi\<close>. In particular the labels of \<open>pi\<close>, \<open>0\<close>
  and \<open>3 * pi\<close> are \<open>pi\<close>, \<open>0\<close> and \<open>3.0 pi\<close>.
\<close>

theorem tick_label:
  "formatXAxis ts x = axisTickLabel_spec ts x \<and>
   (\<bar>x / pi\<bar> < 0.01 \<longrightarrow> formatXAxis ts x = ''0'') \<and>
   (\<bar>x / pi - 1\<bar> < 0.01 \<longrightarrow> formatXAxis ts x = pi_sym) \<and>
   (\<bar>x / pi + 1\<bar> < 0.01 \<longrightarrow> formatXAxis ts x = ''-'' @ pi_sym) \<and>
   (\<bar>x / pi - 2\<bar> < 0.01 \<longrightarrow> formatXAxis ts x = ''2'' @ pi_sym) \<and>
   (\<bar>x / pi + 2\<bar> < 0.01 \<longrightarrow> formatXAxis ts x = ''-2'' @ pi_sym) \<and>
   (\<bar>x / pi - 0.5\<bar> < 0.01 \<longrightarrow> formatXAxis ts x = pi_sym @ ''/2'') \<and>
   (\<bar>x / pi + 0.5\<bar> < 0.01 \<longrightarrow> formatXAxis ts x = ''-'' @ pi_sym @ ''/2'') \<and>
   (\<not> \<bar>x / pi\<bar> < 0.01 \<and> \<not> \<bar>x / pi - 1\<bar> < 0.01 \<and> \<not> \<bar>x / pi + 1\<bar> < 0.01 \<and>
    \<not> \<bar>x / pi - 2\<bar> < 0.01 \<and> \<not> \<bar>x / pi + 2\<bar> < 0.01 \<and> \<not> \<bar>x / pi - 0.5\<bar> < 0.01 \<and>
    \<not> \<bar>x / pi + 0.5\<bar> < 0.01 \<longrightarrow>
      formatXAxis ts x = toFixed ts 1 (x / pi) @ pi_sym) \<and>
   (\<bar>x / pi\<bar> < 10 ^ 21 \<longrightarrow>
      toFixed ts 1 (x / pi) =
        (if x / pi < 0 then ''-'' else []) @ fixed_notation 1 (toFixed_int 1 (x / pi))) \<and>
   (\<bar>x / pi - c\<bar> < 0.01 \<longleftrightarrow> \<bar>x - c * pi\<bar> < 0.01 * pi) \<and>
   formatXAxis ts pi = pi_sym \<and>
   formatXAxis ts 0 = ''0'' \<and>
   formatXAxis ts (3 * pi) = ''3.0'' @ pi_sym"
proof -
  have "formatXAxis ts pi = pi_sym"
    by (rule formatXAxis_pi) simp
  moreover have "formatXAxis ts 0 = ''0''"
    by (rule formatXAxis_zero) simp
  moreover have "formatXAxis ts (3 * pi) = ''3.0'' @ pi_sym"
  proof -
    have c: "3 * pi / pi = 3"
      by simp
    have "formatXAxis ts (3 * pi) = toFixed ts 1 (3 * pi / pi) @ pi_sym"
      by (rule formatXAxis_other) (simp_all add: c)
    then show ?thesis
      by (simp only: c toFixed_1_of_3)
  qed
  moreover note formatXAxis_spec [of ts x] guard_in_x [of x c]
    formatXAxis_zero [of x ts] formatXAxis_pi [of x ts] formatXAxis_minus_pi [of x ts]
    formatXAxis_2pi [of x ts] formatXAxis_minus_2pi [of x ts] formatXAxis_half_pi [of x ts]
    formatXAxis_minus_half_pi [of x ts] formatXAxis_other [of x ts]
    toFixed_fixed [of "x / pi" ts 1]
  ultimately show ?thesis
    by blast
qed

theorem tick_label_witness:
  "\<bar>- (pi / 2) / pi + 0.5\<bar> < (0.01::real) \<and>
   formatXAxis (\<lambda>_. []) (- (pi / 2)) = ''-'' @ pi_sym @ ''/2'' \<and>
   \<bar>3 * pi / 2 / pi\<bar> < (10::real) ^ 21 \<and>
   formatXAxis (\<lambda>_. []) (3 * pi / 2) = ''1.5'' @ pi_sym"
proof -
  have g: "\<bar>- (pi / 2) / pi + 0.5\<bar> < (0.01::real)"
    by simp
  have c: "3 * pi / 2 / pi = 3 / 2"
    by simp
  have n: "\<not> \<bar>3 * pi / 2 / pi\<bar> < (0.01::real)" "\<not> \<bar>3 * pi / 2 / pi - 1\<bar> < (0.01::real)"
      "\<not> \<bar>3 * pi / 2 / pi + 1\<bar> < (0.01::real)" "\<not> \<bar>3 * pi / 2 / pi - 2\<bar> < (0.01::real)"
      "\<not> \<bar>3 * pi / 2 / pi + 2\<bar> < (0.01::real)" "\<not> \<bar>3 * pi / 2 / pi - 0.5\<bar> < (0.01::real)"
      "\<not> \<bar>3 * pi / 2 / pi + 0.5\<bar> < (0.01::real)"
    unfolding c by simp_all
  have b: "\<bar>3 * pi / 2 / pi\<bar> < (10::real) ^ 21"
    unfolding c by simp
  have "toFixed_int 1 (3 / 2) = 15"
    by (simp add: toFixed_int_def)
  moreover have "fixed_notation 1 15 = ''1.5''"
    by code_simp
  ultimately have f: "toFixed (\<lambda>_. []) 1 (3 / 2) = ''1.5''"
    by (simp add: toFixed_def)
  have "formatXAxis (\<lambda>_. []) (- (pi / 2)) = ''-'' @ pi_sym @ ''/2''"
    using tick_label [of "\<lambda>_. []" "- (pi / 2)" 0] g by blast
  moreover have "formatXAxis (\<lambda>_. []) (3 * pi / 2) = toFixed (\<lambda>_. []) 1 (3 * pi / 2 / pi) @ pi_sym"
    using tick_label [of "\<lambda>_. []" "3 * pi / 2" 0] n by blast
  ultimately have "formatXAxis (\<lambda>_. []) (- (pi / 2)) = ''-'' @ pi_sym @ ''/2''"
      "formatXAxis (\<lambda>_. []) (3 * pi / 2) = ''1.5'' @ pi_sym"
    by (simp_all only: c f)
  then show ?thesis
    using g b by blast
qed

section \<open>The grid in double precision\<close>

lemma expo_bounds:
  assumes "2 powi lo \<le> x" and "x < 2 powi hi" and "lo < hi" and "hi - lo \<le> 2 ^ n"
  shows "2 powi (expo n lo hi x) \<le> x \<and> x < 2 powi (expo n lo hi x + 1)"
  using assms
proof (induction n arbitrary: lo hi)
  case 0
  then have "hi = lo + 1"
    by simp
  then show ?case
    using 0 by simp
next
  case (Suc n)
  show ?case
  proof (cases "hi - lo \<le> 1")
    case True
    then have "hi = lo + 1"
      using Suc.prems by simp
    then show ?thesis
      using Suc.prems by simp
  next
    case False
    let ?mid = "(lo + hi) div 2"
    have m: "lo < ?mid" "?mid < hi" "?mid - lo \<le> 2 ^ n" "hi - ?mid \<le> 2 ^ n"
      using False Suc.prems(3,4) by auto
    show ?thesis
    proof (cases "2 powi ?mid \<le> x")
      case True
      then show ?thesis
        using False Suc.IH [of ?mid hi] Suc.prems(2) m by simp
    next
      case False
      then have "x < 2 powi ?mid"
        by simp
      then show ?thesis
        using False \<open>\<not> hi - lo \<le> 1\<close> Suc.IH [of lo ?mid] Suc.prems(1) m by simp
    qed
  qed
qed

lemma fl_tenth: "fl (1 / 10) = 3602879701896397 / 36028797018963968"
  by (simp add: fl_def rne_def eval_nat_numeral)

lemma start_double_eq: "start_double = - (884279719003555 / 140737488355328)"
  by (simp add: start_double_def Math_PI_double_def fl_def rne_def eval_nat_numeral)

lemma end_double_eq: "end_double = 884279719003555 / 140737488355328"
  by (simp add: end_double_def Math_PI_double_def fl_def rne_def eval_nat_numeral)

lemma step_double_eq: "step_double = 2263756080649101 / 36028797018963968"
  by (simp add: step_double_def start_double_eq end_double_eq fl_def rne_def eval_nat_numeral)


text \<open>
  In double arithmetic the loop makes 201 turns as well. The last value of \<open>x\<close> is the
  double just computed below, smaller than \<open>end\<close> by \<open>5 / 2 ^ 48\<close>, and the value in the
  middle is \<open>- 79 / 2 ^ 53\<close> rather than \<open>0\<close>.
\<close>

lemma grid_double_201:
  "map_option (\<lambda>xs. (length xs, xs ! 0, xs ! 100, xs ! 200)) (grid_double 300 start_double) =
     Some (201, - (884279719003555 / 140737488355328), - (79 / 9007199254740992),
           1768559438007105 / 281474976710656)"
  by (simp add: start_double_eq end_double_eq step_double_eq fl_def rne_def eval_nat_numeral)

end
